theory Spec2Isabelle
  imports Main "HOL-Library.Word"
begin

unbundle bit_operations_syntax

section \<open>The digest\<close>

text \<open>
  main.go hashes with \<^verbatim>\<open>sha256.Sum256\<close> of Go's standard library and renders the
  32 digest bytes with \<^verbatim>\<open>fmt.Sprintf("%x", ...)\<close>. The library implements SHA-256
  of FIPS 180-4, which is written out here so that concrete blocks can be computed.
  A 32-bit word is a natural number below \<open>2 ^ 32\<close> with the wrap-around of the
  addition written out; a byte is a natural number below 256. A Go string is a sequence of
  bytes, as an Isabelle \<open>string\<close> is.
\<close>

type_synonym u32 = nat
type_synonym byte = nat

definition add32 :: "u32 \<Rightarrow> u32 \<Rightarrow> u32" where
  "add32 x y = (x + y) mod 2 ^ 32"

definition shr :: "nat \<Rightarrow> u32 \<Rightarrow> u32" where
  "shr n x = x div 2 ^ n"

definition rotr :: "nat \<Rightarrow> u32 \<Rightarrow> u32" where
  "rotr n x = x div 2 ^ n + (x mod 2 ^ n) * 2 ^ (32 - n)"

definition not32 :: "u32 \<Rightarrow> u32" where
  "not32 x = 0xffffffff - x"

definition Ch :: "u32 \<Rightarrow> u32 \<Rightarrow> u32 \<Rightarrow> u32" where
  "Ch x y z = (x AND y) XOR (not32 x AND z)"

definition Maj :: "u32 \<Rightarrow> u32 \<Rightarrow> u32 \<Rightarrow> u32" where
  "Maj x y z = (x AND y) XOR (x AND z) XOR (y AND z)"

definition bsig0 :: "u32 \<Rightarrow> u32" where
  "bsig0 x = rotr 2 x XOR rotr 13 x XOR rotr 22 x"

definition bsig1 :: "u32 \<Rightarrow> u32" where
  "bsig1 x = rotr 6 x XOR rotr 11 x XOR rotr 25 x"

definition ssig0 :: "u32 \<Rightarrow> u32" where
  "ssig0 x = rotr 7 x XOR rotr 18 x XOR shr 3 x"

definition ssig1 :: "u32 \<Rightarrow> u32" where
  "ssig1 x = rotr 17 x XOR rotr 19 x XOR shr 10 x"

text \<open>The round constants, eight to a row as the standard lists them.\<close>

definition K256 :: "u32 list" where
  "K256 = concat
    [[0x428a2f98, 0x71374491, 0xb5c0fbcf, 0xe9b5dba5,
      0x3956c25b, 0x59f111f1, 0x923f82a4, 0xab1c5ed5],
     [0xd807aa98, 0x12835b01, 0x243185be, 0x550c7dc3,
      0x72be5d74, 0x80deb1fe, 0x9bdc06a7, 0xc19bf174],
     [0xe49b69c1, 0xefbe4786, 0x0fc19dc6, 0x240ca1cc,
      0x2de92c6f, 0x4a7484aa, 0x5cb0a9dc, 0x76f988da],
     [0x983e5152, 0xa831c66d, 0xb00327c8, 0xbf597fc7,
      0xc6e00bf3, 0xd5a79147, 0x06ca6351, 0x14292967],
     [0x27b70a85, 0x2e1b2138, 0x4d2c6dfc, 0x53380d13,
      0x650a7354, 0x766a0abb, 0x81c2c92e, 0x92722c85],
     [0xa2bfe8a1, 0xa81a664b, 0xc24b8b70, 0xc76c51a3,
      0xd192e819, 0xd6990624, 0xf40e3585, 0x106aa070],
     [0x19a4c116, 0x1e376c08, 0x2748774c, 0x34b0bcb5,
      0x391c0cb3, 0x4ed8aa4a, 0x5b9cca4f, 0x682e6ff3],
     [0x748f82ee, 0x78a5636f, 0x84c87814, 0x8cc70208,
      0x90befffa, 0xa4506ceb, 0xbef9a3f7, 0xc67178f2]]"

definition init256 :: "u32 list" where
  "init256 = [0x6a09e667, 0xbb67ae85, 0x3c6ef372, 0xa54ff53a,
              0x510e527f, 0x9b05688c, 0x1f83d9ab, 0x5be0cd19]"

text \<open>Big-endian bytes of the 64-bit bit count and of a 32-bit word.\<close>

definition be64 :: "nat \<Rightarrow> byte list" where
  "be64 n = map (\<lambda>i. (n div 2 ^ (8 * i)) mod 256) [7, 6, 5, 4, 3, 2, 1, 0]"

definition be32 :: "u32 \<Rightarrow> byte list" where
  "be32 w = map (\<lambda>i. (w div 2 ^ (8 * i)) mod 256) [3, 2, 1, 0]"

text \<open>
  Padding: the byte 0x80, zero bytes up to 56 modulo 64, then the length in bits.
\<close>

definition pad :: "byte list \<Rightarrow> byte list" where
  "pad m = m @ [0x80] @ replicate ((119 - length m mod 64) mod 64) 0 @ be64 (8 * length m)"

fun words :: "byte list \<Rightarrow> u32 list" where
  "words (a # b # c # d # rest) = (((a * 256 + b) * 256 + c) * 256 + d) # words rest"
| "words _ = []"

text \<open>
  The message schedule, newest word first: the list starts as the 16 words of the block
  reversed, and each step puts the next word of the schedule in front.
\<close>

fun schedule :: "nat \<Rightarrow> u32 list \<Rightarrow> u32 list" where
  "schedule 0 ws = ws"
| "schedule (Suc n) ws =
     schedule n (add32 (add32 (add32 (ssig1 (ws ! 1)) (ws ! 6)) (ssig0 (ws ! 14))) (ws ! 15) # ws)"

fun round256 :: "u32 list \<Rightarrow> u32 \<times> u32 \<Rightarrow> u32 list" where
  "round256 [a, b, c, d, e, f, g, h] (k, w) =
     (let t1 = add32 (add32 (add32 (add32 h (bsig1 e)) (Ch e f g)) k) w;
          t2 = add32 (bsig0 a) (Maj a b c)
      in [add32 t1 t2, a, b, c, add32 d t1, e, f, g])"
| "round256 s _ = s"

definition block256 :: "u32 list \<Rightarrow> u32 list \<Rightarrow> u32 list" where
  "block256 h ws =
     map2 add32 h (foldl round256 h (zip K256 (rev (schedule 48 (rev ws)))))"

function blocks256 :: "u32 list \<Rightarrow> u32 list \<Rightarrow> u32 list" where
  "blocks256 h ws =
     (if length ws < 16 then h else blocks256 (block256 h (take 16 ws)) (drop 16 ws))"
  by pat_completeness auto
termination
  by (relation "measure (\<lambda>(h, ws). length ws)") auto

declare blocks256.simps [simp del]

definition Sum256 :: "string \<Rightarrow> byte list" where
  "Sum256 m = concat (map be32 (blocks256 init256 (words (pad (map of_char m)))))"

definition hexdigit :: "nat \<Rightarrow> char" where
  "hexdigit n = ''0123456789abcdef'' ! n"

text \<open>\<^verbatim>\<open>fmt.Sprintf("%x", digest)\<close>: two lower-case hex digits for each byte.\<close>

definition Sprintf_x :: "byte list \<Rightarrow> string" where
  "Sprintf_x bs = concat (map (\<lambda>b. [hexdigit (b div 16), hexdigit (b mod 16)]) bs)"

section \<open>The other verbs of fmt that CreateHash uses\<close>

text \<open>
  \<^verbatim>\<open>%v\<close> of a \<^verbatim>\<open>[]string\<close> prints the elements between brackets, separated by one
  space; \<^verbatim>\<open>%d\<close> prints an int in decimal, with a minus sign when it is negative.
\<close>

fun join_space :: "string list \<Rightarrow> string" where
  "join_space [] = []"
| "join_space [x] = x"
| "join_space (x # y # rest) = x @ '' '' @ join_space (y # rest)"

definition Sprint_v :: "string list \<Rightarrow> string" where
  "Sprint_v xs = ''['' @ join_space xs @ '']''"

function decimal :: "nat \<Rightarrow> string" where
  "decimal n = (if n < 10 then [hexdigit n] else decimal (n div 10) @ [hexdigit (n mod 10)])"
  by pat_completeness auto
termination
  by (relation "measure id") auto

declare decimal.simps [simp del]

definition Sprint_d :: "int \<Rightarrow> string" where
  "Sprint_d i = (if i < 0 then CHR ''-'' # decimal (nat (- i)) else decimal (nat i))"

text \<open>\<^verbatim>\<open>strings.Repeat\<close> and \<^verbatim>\<open>strings.HasPrefix\<close>.\<close>

definition Repeat :: "string \<Rightarrow> nat \<Rightarrow> string" where
  "Repeat s count = concat (replicate count s)"

definition HasPrefix :: "string \<Rightarrow> string \<Rightarrow> bool" where
  "HasPrefix s prefix = (length prefix \<le> length s \<and> take (length prefix) s = prefix)"

section \<open>Blocks and the blockchain\<close>

text \<open>
  The structs of main.go. Go's \<^verbatim>\<open>int\<close> is a 64-bit two's complement integer on the
  64-bit platforms: the nonce, the only int the program counts with, is a 64-bit word
  (\<open>+\<close> wraps, \<open>sint\<close> reads the signed value that \<^verbatim>\<open>%d\<close> prints). The threshold and
  the index of ChangeBlock are only compared, so they are integers.
\<close>

type_synonym go_int = "64 word"

record Block =
  Transaction :: "string list"
  Nonce :: go_int
  PreviousHash :: string
  CurrentHash :: string
  MerkleRoot :: string

record Blockchain =
  Blocks :: "Block list"
  NumTransactionsPerBlock :: int
  BlockHashMin :: string
  BlockHashMax :: string

text \<open>The zero value \<^verbatim>\<open>Block{}\<close>.\<close>

definition Block_zero :: Block where
  "Block_zero = \<lparr>Transaction = [], Nonce = 0, PreviousHash = '''', CurrentHash = '''',
     MerkleRoot = ''''\<rparr>"

definition GetRecentBlock :: "Blockchain \<Rightarrow> Block" where
  "GetRecentBlock bc =
     (if length (Blocks bc) = 0 then Block_zero
      else Blocks bc ! (length (Blocks bc) - 1))"

section \<open>The Merkle root\<close>

text \<open>
  The loop of CreateMerkleRoot walks the list two elements at a time; a last element
  without a partner is concatenated with the empty string. Each pair becomes the hex
  digest of its concatenation.
\<close>

fun merkle_pairs :: "string list \<Rightarrow> string list" where
  "merkle_pairs [] = []"
| "merkle_pairs [first] = [Sprintf_x (Sum256 (first @ ''''))]"
| "merkle_pairs (first # second # rest) =
     Sprintf_x (Sum256 (first @ second)) # merkle_pairs rest"

function (domintros) CreateMerkleRoot :: "string list \<Rightarrow> string" where
  "CreateMerkleRoot transactions =
     (if length transactions = 0 then ''''
      else if length transactions = 1 then transactions ! 0
      else CreateMerkleRoot (merkle_pairs transactions))"
  by pat_completeness auto
termination
proof (relation "measure length")
  show "wf (measure length)"
    by simp
next
  fix transactions :: "string list"
  assume "length transactions \<noteq> 0" and "length transactions \<noteq> 1"
  then have "(length transactions + 1) div 2 < length transactions"
    by arith
  moreover have "length (merkle_pairs ts) = (length ts + 1) div 2" for ts
    by (induction ts rule: merkle_pairs.induct) simp_all
  ultimately show "(merkle_pairs transactions, transactions) \<in> measure length"
    by simp
qed

declare CreateMerkleRoot.simps [simp del]

section \<open>The block hash and the proof of work\<close>

definition CreateHash :: "string list \<Rightarrow> go_int \<Rightarrow> string \<Rightarrow> string \<Rightarrow> string" where
  "CreateHash transactions nonce previousHash merkleRoot =
     Sprintf_x (Sum256 (Sprint_v transactions @ Sprint_d (sint nonce) @ previousHash @ merkleRoot))"

definition leadingZeros :: nat where
  "leadingZeros = 4"

text \<open>
  The search loop of FindValidNonce has no bound. It is a partial function: \<open>None\<close>
  stands for a search that never returns.
\<close>

partial_function (option) FindValidNonce_from :: "string \<Rightarrow> string \<Rightarrow> go_int \<Rightarrow> go_int option" where
  "FindValidNonce_from merkleRoot previousHash nonce =
     (if HasPrefix (CreateHash [] nonce previousHash merkleRoot) (Repeat ''0'' leadingZeros)
      then Some nonce
      else FindValidNonce_from merkleRoot previousHash (nonce + 1))"

definition FindValidNonce :: "string \<Rightarrow> string \<Rightarrow> go_int option" where
  "FindValidNonce merkleRoot previousHash = FindValidNonce_from merkleRoot previousHash 0"

section \<open>The operations on the chain\<close>

text \<open>
  The methods mutate the blockchain through a pointer: here they take the blockchain and
  return the new one. NewBlock and ChangeBlock return \<open>None\<close> when the nonce search does
  not return. The messages that NewBlock prints are left out.
\<close>

definition NewBlock :: "Blockchain \<Rightarrow> string list \<Rightarrow> Blockchain option" where
  "NewBlock bc transactions =
     (if length transactions = 0 then Some bc
      else if int (length transactions) \<ge> NumTransactionsPerBlock bc then
        (let previousBlock = GetRecentBlock bc;
             previousHash = CurrentHash previousBlock;
             merkleRoot = CreateMerkleRoot transactions
         in case FindValidNonce merkleRoot previousHash of
              None \<Rightarrow> None
            | Some nonce \<Rightarrow>
                (let currentHash = CreateHash transactions nonce previousHash merkleRoot;
                     block = \<lparr>Transaction = transactions, Nonce = nonce,
                              PreviousHash = previousHash, CurrentHash = currentHash,
                              MerkleRoot = merkleRoot\<rparr>
                 in Some (bc\<lparr>Blocks := Blocks bc @ [block]\<rparr>)))
      else Some bc)"

definition ChangeBlock :: "Blockchain \<Rightarrow> int \<Rightarrow> string \<Rightarrow> (bool \<times> Blockchain) option" where
  "ChangeBlock bc index newTransaction =
     (if index \<ge> 0 \<and> index < int (length (Blocks bc)) then
        (let oldBlock = Blocks bc ! nat index;
             transactions = Transaction oldBlock @ [newTransaction];
             merkleRoot = CreateMerkleRoot transactions;
             previousHash =
               (if index > 0 then CurrentHash (Blocks bc ! nat (index - 1)) else '''')
         in case FindValidNonce merkleRoot previousHash of
              None \<Rightarrow> None
            | Some nonce \<Rightarrow>
                (let currentHash = CreateHash transactions nonce previousHash merkleRoot;
                     newBlock = \<lparr>Transaction = transactions, Nonce = nonce,
                                 PreviousHash = previousHash, CurrentHash = currentHash,
                                 MerkleRoot = merkleRoot\<rparr>
                 in Some (True, bc\<lparr>Blocks := (Blocks bc)[nat index := newBlock]\<rparr>)))
      else Some (False, bc))"

text \<open>The loop of VerifyChain, from index \<open>i\<close> on.\<close>

function VerifyChain_from :: "Block list \<Rightarrow> nat \<Rightarrow> bool" where
  "VerifyChain_from blocks i =
     (if i < length blocks then
        (if PreviousHash (blocks ! i) \<noteq> CurrentHash (blocks ! (i - 1)) then False
         else VerifyChain_from blocks (i + 1))
      else True)"
  by pat_completeness auto
termination
  by (relation "measure (\<lambda>(blocks, i). length blocks - i)") auto

declare VerifyChain_from.simps [simp del]

definition VerifyChain :: "Blockchain \<Rightarrow> bool" where
  "VerifyChain bc = VerifyChain_from (Blocks bc) 1"

definition setNumberOfTransactionsPerBlock :: "Blockchain \<Rightarrow> int \<Rightarrow> Blockchain" where
  "setNumberOfTransactionsPerBlock bc numTransactions =
     (if numTransactions \<ge> 1 then bc\<lparr>NumTransactionsPerBlock := numTransactions\<rparr> else bc)"

definition setBlockHashRangeForBlockCreation :: "Blockchain \<Rightarrow> string \<Rightarrow> string \<Rightarrow> Blockchain" where
  "setBlockHashRangeForBlockCreation bc min_hash max_hash =
     bc\<lparr>BlockHashMin := min_hash, BlockHashMax := max_hash\<rparr>"

text \<open>
  The calls that the menu of main makes on the blockchain, ChangeBlock apart: options 1,
  2 and 3. A sequence of calls runs from left to right and has no result when one of them
  does not return.
\<close>

datatype call =
  SetNumber int
| SetRange string string
| AddBlock "string list"

fun run_call :: "Blockchain \<Rightarrow> call \<Rightarrow> Blockchain option" where
  "run_call bc (SetNumber n) = Some (setNumberOfTransactionsPerBlock bc n)"
| "run_call bc (SetRange lo hi) = Some (setBlockHashRangeForBlockCreation bc lo hi)"
| "run_call bc (AddBlock transactions) = NewBlock bc transactions"

fun run_calls :: "Blockchain \<Rightarrow> call list \<Rightarrow> Blockchain option" where
  "run_calls bc [] = Some bc"
| "run_calls bc (c # cs) =
     (case run_call bc c of None \<Rightarrow> None | Some bc' \<Rightarrow> run_calls bc' cs)"

section \<open>Concrete chains\<close>

text \<open>
  The blockchain as main creates it, and the chains that the calls below build from it
  once the threshold is 2. The hash values are the ones that the evaluation lemmas of the
  next sections compute.
\<close>

definition chain_main :: Blockchain where
  "chain_main = \<lparr>Blocks = [], NumTransactionsPerBlock = 5, BlockHashMin = ''0000'',
     BlockHashMax = ''00000''\<rparr>"

definition chain0 :: Blockchain where
  "chain0 = \<lparr>Blocks = [], NumTransactionsPerBlock = 2, BlockHashMin = ''0000'',
     BlockHashMax = ''00000''\<rparr>"

definition block1 :: Block where
  "block1 = \<lparr>Transaction = [''a'', ''b659''], Nonce = 1, PreviousHash = '''',
     CurrentHash = ''359b8b55d15ab87cdd4cb797d629df0c8cec75b518ecfa72f0ddf3538154f50b'',
     MerkleRoot = ''d7d0be77feeced02453fa436114d65e634e706c554af96b106283a1cf42fd8c7''\<rparr>"

definition block2 :: Block where
  "block2 = \<lparr>Transaction = [''c'', ''d17665''], Nonce = 0,
     PreviousHash = ''359b8b55d15ab87cdd4cb797d629df0c8cec75b518ecfa72f0ddf3538154f50b'',
     CurrentHash = ''fb39ea53fc190d64bd0bb78a5d32f2c2203d396f02eeb26f5676af69e51d3ca6'',
     MerkleRoot = ''d0c424c31fc47004fdc4475eacd839bbec8e7679515638d1dd00680614fb797a''\<rparr>"

definition chain1 :: Blockchain where
  "chain1 = chain0\<lparr>Blocks := [block1]\<rparr>"

definition chain2 :: Blockchain where
  "chain2 = chain0\<lparr>Blocks := [block1, block2]\<rparr>"

section \<open>Lemmas about the model\<close>

lemma length_merkle_pairs:
  "length (merkle_pairs transactions) = (length transactions + 1) div 2"
  by (induction transactions rule: merkle_pairs.induct) simp_all

lemma VerifyChain_from_iff:
  "VerifyChain_from blocks i \<longleftrightarrow>
     (\<forall>j. i \<le> j \<and> j < length blocks \<longrightarrow> PreviousHash (blocks ! j) = CurrentHash (blocks ! (j - 1)))"
proof (induction blocks i rule: VerifyChain_from.induct)
  case (1 blocks i)
  show ?case
  proof (cases "i < length blocks")
    case False
    then show ?thesis
      by (auto simp: VerifyChain_from.simps [of blocks i])
  next
    case True
    show ?thesis
    proof (cases "PreviousHash (blocks ! i) = CurrentHash (blocks ! (i - 1))")
      case False
      with True show ?thesis
        by (auto simp: VerifyChain_from.simps [of blocks i])
    next
      case same: True
      have "VerifyChain_from blocks i = VerifyChain_from blocks (i + 1)"
        using True same by (simp add: VerifyChain_from.simps [of blocks i])
      also have "\<dots> \<longleftrightarrow> (\<forall>j. i + 1 \<le> j \<and> j < length blocks \<longrightarrow>
          PreviousHash (blocks ! j) = CurrentHash (blocks ! (j - 1)))"
        using "1.IH" True same by simp
      also have "\<dots> \<longleftrightarrow> (\<forall>j. i \<le> j \<and> j < length blocks \<longrightarrow>
          PreviousHash (blocks ! j) = CurrentHash (blocks ! (j - 1)))"
        using same by (metis Suc_eq_plus1 Suc_leI le_neq_implies_less Suc_leD)
      finally show ?thesis .
    qed
  qed
qed

lemma VerifyChain_iff:
  "VerifyChain bc \<longleftrightarrow>
     (\<forall>i. 0 < i \<and> i < length (Blocks bc) \<longrightarrow>
        PreviousHash (Blocks bc ! i) = CurrentHash (Blocks bc ! (i - 1)))"
  by (auto simp: VerifyChain_def VerifyChain_from_iff Suc_le_eq)

text \<open>
  The search returns as soon as some nonce meets the difficulty: counting up from any
  start, with the wrap-around of the 64-bit counter, reaches it. What it returns meets the
  difficulty for the hash of the empty transaction list.
\<close>

lemma FindValidNonce_from_finds:
  assumes "HasPrefix (CreateHash [] k previousHash merkleRoot) (Repeat ''0'' leadingZeros)"
  shows "\<exists>nonce. FindValidNonce_from merkleRoot previousHash n = Some nonce \<and>
           HasPrefix (CreateHash [] nonce previousHash merkleRoot) (Repeat ''0'' leadingZeros)"
proof (induction "unat (k - n)" arbitrary: n rule: less_induct)
  case less
  show ?case
  proof (cases "HasPrefix (CreateHash [] n previousHash merkleRoot) (Repeat ''0'' leadingZeros)")
    case True
    then show ?thesis
      by (subst FindValidNonce_from.simps) simp
  next
    case False
    with assms have "k - n \<noteq> 0"
      by auto
    then have "unat (k - n - 1) < unat (k - n)"
      by (simp add: unat_minus_one unat_gt_0 word_neq_0_conv)
    moreover have "k - (n + 1) = k - n - 1"
      by simp
    ultimately have "unat (k - (n + 1)) < unat (k - n)"
      by (simp only:)
    from less [OF this] False show ?thesis
      by (subst FindValidNonce_from.simps) simp
  qed
qed

lemma FindValidNonce_returns:
  assumes "\<exists>k. HasPrefix (CreateHash [] k previousHash merkleRoot) (Repeat ''0'' leadingZeros)"
  shows "\<exists>nonce. FindValidNonce merkleRoot previousHash = Some nonce"
  using assms FindValidNonce_from_finds unfolding FindValidNonce_def by blast

lemma NewBlock_VerifyChain:
  assumes "VerifyChain bc" and "NewBlock bc transactions = Some bc'"
  shows "VerifyChain bc'"
  using assms
  by (auto simp: NewBlock_def Let_def VerifyChain_iff GetRecentBlock_def nth_append less_Suc_eq
      split: if_splits option.splits)

lemma run_call_VerifyChain:
  assumes "VerifyChain bc" and "run_call bc c = Some bc'"
  shows "VerifyChain bc'"
proof (cases c)
  case (AddBlock transactions)
  with assms show ?thesis
    by (simp add: NewBlock_VerifyChain)
next
  case (SetNumber n)
  with assms show ?thesis
    by (auto simp: setNumberOfTransactionsPerBlock_def VerifyChain_def)
next
  case (SetRange lo hi)
  with assms show ?thesis
    by (auto simp: setBlockHashRangeForBlockCreation_def VerifyChain_def)
qed

lemma run_calls_VerifyChain:
  assumes "VerifyChain bc" and "run_calls bc cs = Some bc'"
  shows "VerifyChain bc'"
  using assms
proof (induction cs arbitrary: bc)
  case Nil
  then show ?case by simp
next
  case (Cons c cs)
  then obtain bc1 where step: "run_call bc c = Some bc1" and rest: "run_calls bc1 cs = Some bc'"
    by (auto split: option.splits)
  from Cons.prems(1) step have "VerifyChain bc1"
    by (rule run_call_VerifyChain)
  then show ?case
    using rest by (rule Cons.IH)
qed

lemma FindValidNonce_from_sound:
  assumes "FindValidNonce_from merkleRoot previousHash n = Some nonce"
  shows "HasPrefix (CreateHash [] nonce previousHash merkleRoot) (Repeat ''0'' leadingZeros)"
proof (rule FindValidNonce_from.raw_induct
    [where P = "\<lambda>m p n r. HasPrefix (CreateHash [] r p m) (Repeat ''0'' leadingZeros)", OF _ assms])
  fix find m p k r
  assume IH: "\<And>m p k r. find m p k = Some r \<Longrightarrow>
      HasPrefix (CreateHash [] r p m) (Repeat ''0'' leadingZeros)"
    and step: "(if HasPrefix (CreateHash [] k p m) (Repeat ''0'' leadingZeros) then Some k
      else find m p (k + 1)) = Some r"
  show "HasPrefix (CreateHash [] r p m) (Repeat ''0'' leadingZeros)"
  proof (cases "HasPrefix (CreateHash [] k p m) (Repeat ''0'' leadingZeros)")
    case True
    with step show ?thesis by simp
  next
    case False
    with step have "find m p (k + 1) = Some r" by simp
    then show ?thesis by (rule IH)
  qed
qed

section \<open>Evaluating the digest\<close>

text \<open>
  Rewrite rules that let the simplifier run the recursions on numerals, and the digests of
  the messages that the concrete chains need, each computed inside the logic.
\<close>

lemma replicate_unfold: "0 < n \<Longrightarrow> replicate n x = x # replicate (n - 1) x"
  by (cases n) simp_all

lemma schedule_numeral:
  "schedule (numeral k) ws = schedule (pred_numeral k)
     (add32 (add32 (add32 (ssig1 (ws ! 1)) (ws ! 6)) (ssig0 (ws ! 14))) (ws ! 15) # ws)"
  by (simp add: numeral_eq_Suc)

lemma blocks256_stop: "length ws < 16 \<Longrightarrow> blocks256 h ws = h"
  by (simp add: blocks256.simps)

lemma blocks256_step:
  "\<not> length ws < 16 \<Longrightarrow> blocks256 h ws = blocks256 (block256 h (take 16 ws)) (drop 16 ws)"
  by (simp add: blocks256.simps)

lemmas sha_eval = Sum256_def Sprintf_x_def pad_def be64_def be32_def hexdigit_def block256_def
  K256_def init256_def rotr_def shr_def not32_def add32_def Ch_def Maj_def
  bsig0_def bsig1_def ssig0_def ssig1_def
  replicate_unfold schedule_numeral blocks256_stop blocks256_step

lemma decimal_digit: "n < 10 \<Longrightarrow> decimal n = [hexdigit n]"
  by (simp add: decimal.simps)

lemma sha_ab659:
  "Sprintf_x (Sum256 ''ab659'') =
     ''d7d0be77feeced02453fa436114d65e634e706c554af96b106283a1cf42fd8c7''"
  by (simp add: sha_eval)

lemma sha_search1_0:
  "Sprintf_x (Sum256 ''[]0d7d0be77feeced02453fa436114d65e634e706c554af96b106283a1cf42fd8c7'') =
     ''3820d6fa17604585abc53b6110522ca8d0f240b07acce2e1f90d2320fa285b35''"
  by (simp add: sha_eval)

lemma sha_search1_1:
  "Sprintf_x (Sum256 ''[]1d7d0be77feeced02453fa436114d65e634e706c554af96b106283a1cf42fd8c7'') =
     ''0000bf914a46e57dafcfc9bfc8806094758763983568da99c808c0cb7af1f4ab''"
  by (simp add: sha_eval)

lemma sha_block1:
  "Sprintf_x (Sum256 ''[a b659]1d7d0be77feeced02453fa436114d65e634e706c554af96b106283a1cf42fd8c7'') =
     ''359b8b55d15ab87cdd4cb797d629df0c8cec75b518ecfa72f0ddf3538154f50b''"
  by (simp add: sha_eval)

lemma sha_cd17665:
  "Sprintf_x (Sum256 ''cd17665'') =
     ''d0c424c31fc47004fdc4475eacd839bbec8e7679515638d1dd00680614fb797a''"
  by (simp add: sha_eval)

lemma sha_search2_0:
  "Sprintf_x (Sum256 ''[]0359b8b55d15ab87cdd4cb797d629df0c8cec75b518ecfa72f0ddf3538154f50bd0c424c31fc47004fdc4475eacd839bbec8e7679515638d1dd00680614fb797a'') =
     ''0000288f88a4a11966b2ecc8f9f10b49bba07012b0da280908c1c664d1c9e6aa''"
  by (simp add: sha_eval)

lemma sha_block2:
  "Sprintf_x (Sum256 ''[c d17665]0359b8b55d15ab87cdd4cb797d629df0c8cec75b518ecfa72f0ddf3538154f50bd0c424c31fc47004fdc4475eacd839bbec8e7679515638d1dd00680614fb797a'') =
     ''fb39ea53fc190d64bd0bb78a5d32f2c2203d396f02eeb26f5676af69e51d3ca6''"
  by (simp add: sha_eval)

lemma sha_x299014:
  "Sprintf_x (Sum256 ''x299014'') =
     ''2a4276bb379b4296300d39d95cd51a99160ea291ff205a2b7d78911fc58a292a''"
  by (simp add: sha_eval)

lemma sha_root3:
  "Sprintf_x (Sum256 ''d7d0be77feeced02453fa436114d65e634e706c554af96b106283a1cf42fd8c72a4276bb379b4296300d39d95cd51a99160ea291ff205a2b7d78911fc58a292a'') =
     ''d50d0138633dd4ec3e019e98ff7b967a8c45c29e984188d7e4c1a4e39c9d50c0''"
  by (simp add: sha_eval)

lemma sha_search3_0:
  "Sprintf_x (Sum256 ''[]0d50d0138633dd4ec3e019e98ff7b967a8c45c29e984188d7e4c1a4e39c9d50c0'') =
     ''0000beb8bdc019a233d08e4113af46510cb6ec108bb4326fbcbfa22e49f9c530''"
  by (simp add: sha_eval)

lemma sha_ab:
  "Sprintf_x (Sum256 ''ab'') =
     ''fb8e20fc2e4c3f248c60c39bd652f3c1347298bb977b8b4d5903b85055620603''"
  by (simp add: sha_eval)

lemma sha_c:
  "Sprintf_x (Sum256 ''c'') =
     ''2e7d2c03a9507ae265ecf5b5356885a53393a2029d241394997265a1a25aefc6''"
  by (simp add: sha_eval)

lemma sha_ab_c_hashed:
  "Sprintf_x (Sum256 ''fb8e20fc2e4c3f248c60c39bd652f3c1347298bb977b8b4d5903b850556206032e7d2c03a9507ae265ecf5b5356885a53393a2029d241394997265a1a25aefc6'') =
     ''14eec32d1bd92fe52253ef7547e20407b0dd70dbc835e3cbbb81dd8ef52ca6c7''"
  by (simp add: sha_eval)

lemma sha_ab_c_plain:
  "Sprintf_x (Sum256 ''fb8e20fc2e4c3f248c60c39bd652f3c1347298bb977b8b4d5903b85055620603c'') =
     ''c9e620703fe0f117429c21ec19323aff8673ac05ae8ddd7bcc36599aabc34c51''"
  by (simp add: sha_eval)

section \<open>Evaluating the operations on the concrete chains\<close>

lemmas fmt_eval = CreateHash_def Sprint_v_def Sprint_d_def decimal_digit hexdigit_def
  HasPrefix_def Repeat_def leadingZeros_def replicate_unfold

lemma root_block1: "CreateMerkleRoot [''a'', ''b659''] = ''d7d0be77feeced02453fa436114d65e634e706c554af96b106283a1cf42fd8c7''"
  by (simp add: CreateMerkleRoot.simps sha_ab659)

lemma root_block2: "CreateMerkleRoot [''c'', ''d17665''] = ''d0c424c31fc47004fdc4475eacd839bbec8e7679515638d1dd00680614fb797a''"
  by (simp add: CreateMerkleRoot.simps sha_cd17665)

lemma root_block1_changed: "CreateMerkleRoot [''a'', ''b659'', ''x299014''] = ''d50d0138633dd4ec3e019e98ff7b967a8c45c29e984188d7e4c1a4e39c9d50c0''"
  by (simp add: CreateMerkleRoot.simps sha_ab659 sha_x299014 sha_root3)

lemma nonce_block1: "FindValidNonce ''d7d0be77feeced02453fa436114d65e634e706c554af96b106283a1cf42fd8c7'' '''' = Some 1"
  by (simp add: FindValidNonce_def FindValidNonce_from.simps fmt_eval sha_search1_0 sha_search1_1)

lemma nonce_block2: "FindValidNonce ''d0c424c31fc47004fdc4475eacd839bbec8e7679515638d1dd00680614fb797a'' ''359b8b55d15ab87cdd4cb797d629df0c8cec75b518ecfa72f0ddf3538154f50b'' = Some 0"
  by (simp add: FindValidNonce_def FindValidNonce_from.simps fmt_eval sha_search2_0)

lemma nonce_block1_changed: "FindValidNonce ''d50d0138633dd4ec3e019e98ff7b967a8c45c29e984188d7e4c1a4e39c9d50c0'' '''' = Some 0"
  by (simp add: FindValidNonce_def FindValidNonce_from.simps fmt_eval sha_search3_0)

lemma hash_block1: "CreateHash [''a'', ''b659''] 1 '''' ''d7d0be77feeced02453fa436114d65e634e706c554af96b106283a1cf42fd8c7'' = ''359b8b55d15ab87cdd4cb797d629df0c8cec75b518ecfa72f0ddf3538154f50b''"
  by (simp add: fmt_eval sha_block1)

lemma hash_block2: "CreateHash [''c'', ''d17665''] 0 ''359b8b55d15ab87cdd4cb797d629df0c8cec75b518ecfa72f0ddf3538154f50b'' ''d0c424c31fc47004fdc4475eacd839bbec8e7679515638d1dd00680614fb797a'' = ''fb39ea53fc190d64bd0bb78a5d32f2c2203d396f02eeb26f5676af69e51d3ca6''"
  by (simp add: fmt_eval sha_block2)

lemma NewBlock_chain0: "NewBlock chain0 [''a'', ''b659''] = Some chain1"
  by (simp add: NewBlock_def Let_def GetRecentBlock_def Block_zero_def chain0_def chain1_def block1_def
      root_block1 nonce_block1 hash_block1)

lemma NewBlock_chain1: "NewBlock chain1 [''c'', ''d17665''] = Some chain2"
  by (simp add: NewBlock_def Let_def GetRecentBlock_def chain0_def chain1_def chain2_def block1_def
      block2_def root_block2 nonce_block2 hash_block2)

section \<open>The claims\<close>

text \<open>
  C1: every block that NewBlock appends should store a CurrentHash with at least 4 leading
  '0' characters. FindValidNonce searches with the hash of the empty transaction list, and
  NewBlock then stores the hash of the real list with the nonce found. On the empty chain
  with threshold 2, NewBlock of ["a", "b659"] returns: the nonce is 1, the hash that the
  search computed for it has the prefix 0000, and the CurrentHash stored in the new block
  starts with 359b, so it does not meet the difficulty.
\<close>

theorem NewBlock_hash_misses_difficulty:
  "NewBlock chain0 [''a'', ''b659''] = Some chain1 \<and>
   FindValidNonce (MerkleRoot (GetRecentBlock chain1)) (PreviousHash (GetRecentBlock chain1)) =
     Some (Nonce (GetRecentBlock chain1)) \<and>
   HasPrefix (CreateHash [] (Nonce (GetRecentBlock chain1)) (PreviousHash (GetRecentBlock chain1))
     (MerkleRoot (GetRecentBlock chain1))) (Repeat ''0'' leadingZeros) \<and>
   CurrentHash (GetRecentBlock chain1) =
     ''359b8b55d15ab87cdd4cb797d629df0c8cec75b518ecfa72f0ddf3538154f50b'' \<and>
   \<not> HasPrefix (CurrentHash (GetRecentBlock chain1)) (Repeat ''0'' leadingZeros)"
proof -
  have last1: "GetRecentBlock chain1 = block1"
    by (simp add: GetRecentBlock_def chain1_def)
  have found: "FindValidNonce (MerkleRoot block1) (PreviousHash block1) = Some (Nonce block1)"
    by (simp add: block1_def nonce_block1)
  have "FindValidNonce_from (MerkleRoot block1) (PreviousHash block1) 0 = Some (Nonce block1)"
    using found by (simp add: FindValidNonce_def)
  then have searched: "HasPrefix (CreateHash [] (Nonce block1) (PreviousHash block1)
      (MerkleRoot block1)) (Repeat ''0'' leadingZeros)"
    by (rule FindValidNonce_from_sound)
  have stored: "CurrentHash block1 = ''359b8b55d15ab87cdd4cb797d629df0c8cec75b518ecfa72f0ddf3538154f50b''"
    by (simp add: block1_def)
  have "\<not> HasPrefix ''359b8b55d15ab87cdd4cb797d629df0c8cec75b518ecfa72f0ddf3538154f50b'' (Repeat ''0'' leadingZeros)"
    by (simp add: HasPrefix_def Repeat_def leadingZeros_def replicate_unfold)
  with NewBlock_chain0 found searched stored show ?thesis
    by (simp only: last1 simp_thms)
qed

text \<open>
  C2, as stated, at a = "a", b = "b", c = "c": the root of [a, b, c] is not the digest of
  hash(a+b) followed by c itself.
\<close>

theorem CreateMerkleRoot_odd_tail_counterexample:
  "CreateMerkleRoot [''a'', ''b'', ''c''] \<noteq>
     Sprintf_x (Sum256 (Sprintf_x (Sum256 (''a'' @ ''b'')) @ ''c''))"
  by (simp add: CreateMerkleRoot.simps sha_ab sha_c sha_ab_c_hashed sha_ab_c_plain)

text \<open>
  C2, amended: the root of [a, b] is hash(a+b); the root of [a, b, c] is
  hash(hash(a+b) + hash(c)), because the loop hashes the last element, paired with the empty
  string, before the next level combines it.
\<close>

theorem CreateMerkleRoot_two_three:
  "CreateMerkleRoot [a, b] = Sprintf_x (Sum256 (a @ b)) \<and>
   CreateMerkleRoot [a, b, c] =
     Sprintf_x (Sum256 (Sprintf_x (Sum256 (a @ b)) @ Sprintf_x (Sum256 c)))"
  by (simp add: CreateMerkleRoot.simps)

text \<open>
  C3: from a blockchain without blocks, after any finite sequence of NewBlock calls that
  have returned (with calls of the two setters anywhere between them, and no ChangeBlock),
  VerifyChain is true; that is, every block after the first stores the CurrentHash of the
  block before it as its PreviousHash.
\<close>

theorem VerifyChain_after_calls:
  assumes "Blocks bc = []" and "run_calls bc cs = Some bc'"
  shows "VerifyChain bc' \<and>
    (\<forall>i. 0 < i \<and> i < length (Blocks bc') \<longrightarrow>
       PreviousHash (Blocks bc' ! i) = CurrentHash (Blocks bc' ! (i - 1)))"
proof -
  have "VerifyChain bc"
    using assms(1) by (simp add: VerifyChain_iff)
  then have "VerifyChain bc'"
    using assms(2) by (rule run_calls_VerifyChain)
  then show ?thesis
    by (simp add: VerifyChain_iff)
qed

text \<open>
  C3 at the chain of main, after setting the threshold to 2 and adding two blocks.
\<close>

theorem VerifyChain_after_calls_witness:
  "Blocks chain_main = [] \<and>
   run_calls chain_main [SetNumber 2, AddBlock [''a'', ''b659''], AddBlock [''c'', ''d17665'']] =
     Some chain2 \<and>
   VerifyChain chain2 \<and>
   PreviousHash (Blocks chain2 ! 1) = CurrentHash (Blocks chain2 ! 0)"
proof -
  have empty: "Blocks chain_main = []"
    by (simp add: chain_main_def)
  have "setNumberOfTransactionsPerBlock chain_main 2 = chain0"
    by (simp add: setNumberOfTransactionsPerBlock_def chain_main_def chain0_def)
  then have run: "run_calls chain_main
      [SetNumber 2, AddBlock [''a'', ''b659''], AddBlock [''c'', ''d17665'']] = Some chain2"
    by (simp add: NewBlock_chain0 NewBlock_chain1)
  note after = VerifyChain_after_calls [OF empty run]
  from after have valid: "VerifyChain chain2"
    by (rule conjunct1)
  from after have "0 < (1::nat) \<and> 1 < length (Blocks chain2) \<longrightarrow>
      PreviousHash (Blocks chain2 ! 1) = CurrentHash (Blocks chain2 ! (1 - 1))"
    by blast
  then have "PreviousHash (Blocks chain2 ! 1) = CurrentHash (Blocks chain2 ! 0)"
    by (simp add: chain2_def)
  with empty run valid show ?thesis
    by simp
qed

text \<open>
  C4: when NewBlock returns and has appended a block, the blocks before it are unchanged
  and the PreviousHash of the new last block is the CurrentHash of the block that was last
  before the call, which GetRecentBlock reads as the empty string on a chain without
  blocks.
\<close>

theorem NewBlock_links_to_recent:
  assumes "NewBlock bc transactions = Some bc'" and "Blocks bc' \<noteq> Blocks bc"
  shows "length (Blocks bc') = length (Blocks bc) + 1 \<and>
    take (length (Blocks bc)) (Blocks bc') = Blocks bc \<and>
    PreviousHash (GetRecentBlock bc') = CurrentHash (GetRecentBlock bc) \<and>
    CurrentHash (GetRecentBlock bc) =
      (if Blocks bc = [] then '''' else CurrentHash (Blocks bc ! (length (Blocks bc) - 1)))"
  using assms
  by (auto simp: NewBlock_def Let_def GetRecentBlock_def Block_zero_def
      split: if_splits option.splits)

text \<open>
  C4 at the second block of the chain built above.
\<close>

theorem NewBlock_links_to_recent_witness:
  "NewBlock chain1 [''c'', ''d17665''] = Some chain2 \<and> Blocks chain2 \<noteq> Blocks chain1 \<and>
   length (Blocks chain2) = length (Blocks chain1) + 1 \<and>
   PreviousHash (GetRecentBlock chain2) = CurrentHash (GetRecentBlock chain1) \<and>
   CurrentHash (GetRecentBlock chain1) =
     ''359b8b55d15ab87cdd4cb797d629df0c8cec75b518ecfa72f0ddf3538154f50b''"
proof -
  have changed: "Blocks chain2 \<noteq> Blocks chain1"
    by (simp add: chain1_def chain2_def)
  have "CurrentHash (GetRecentBlock chain1) = ''359b8b55d15ab87cdd4cb797d629df0c8cec75b518ecfa72f0ddf3538154f50b''"
    by (simp add: GetRecentBlock_def chain1_def block1_def)
  with NewBlock_links_to_recent [OF NewBlock_chain1 changed] NewBlock_chain1 changed
  show ?thesis
    by simp
qed

text \<open>
  C6: for an index in range, whenever some nonce meets the difficulty for the new Merkle
  root and previous hash (so that the search of FindValidNonce returns), ChangeBlock returns
  true; the block at the index has the old transactions followed by the new one, their
  Merkle root, the CurrentHash of the block before it (the empty string at index 0) as
  PreviousHash, the nonce found, and CreateHash of these as CurrentHash; every other block
  and the configuration are unchanged.
\<close>

theorem ChangeBlock_replaces_one_block:
  fixes bc :: Blockchain and index :: int and t :: string
  defines "transactions \<equiv> Transaction (Blocks bc ! nat index) @ [t]"
  defines "merkleRoot \<equiv> CreateMerkleRoot transactions"
  defines "previousHash \<equiv>
    (if index = 0 then '''' else CurrentHash (Blocks bc ! (nat index - 1)))"
  assumes "0 \<le> index" and "index < int (length (Blocks bc))"
    and "\<exists>k. HasPrefix (CreateHash [] k previousHash merkleRoot) (Repeat ''0'' leadingZeros)"
  shows "\<exists>bc' nonce. ChangeBlock bc index t = Some (True, bc') \<and>
    FindValidNonce merkleRoot previousHash = Some nonce \<and>
    length (Blocks bc') = length (Blocks bc) \<and>
    Blocks bc' ! nat index =
      \<lparr>Transaction = transactions, Nonce = nonce, PreviousHash = previousHash,
        CurrentHash = CreateHash transactions nonce previousHash merkleRoot,
        MerkleRoot = merkleRoot\<rparr> \<and>
    (\<forall>j. j < length (Blocks bc) \<and> j \<noteq> nat index \<longrightarrow> Blocks bc' ! j = Blocks bc ! j) \<and>
    NumTransactionsPerBlock bc' = NumTransactionsPerBlock bc \<and>
    BlockHashMin bc' = BlockHashMin bc \<and> BlockHashMax bc' = BlockHashMax bc"
proof -
  from assms(6) obtain nonce where found: "FindValidNonce merkleRoot previousHash = Some nonce"
    using FindValidNonce_returns by blast
  have prev: "(if index > 0 then CurrentHash (Blocks bc ! nat (index - 1)) else '''') = previousHash"
    using assms(4) by (auto simp: previousHash_def nat_diff_distrib)
  define b where "b = \<lparr>Transaction = transactions, Nonce = nonce, PreviousHash = previousHash,
        CurrentHash = CreateHash transactions nonce previousHash merkleRoot,
        MerkleRoot = merkleRoot\<rparr>"
  have "ChangeBlock bc index t = Some (True, bc\<lparr>Blocks := (Blocks bc)[nat index := b]\<rparr>)"
    using assms(4,5) found
    by (simp add: ChangeBlock_def Let_def prev b_def
        transactions_def [symmetric] merkleRoot_def [symmetric])
  moreover have "nat index < length (Blocks bc)"
    using assms(4,5) by linarith
  ultimately show ?thesis
    using found by (auto simp: b_def)
qed

text \<open>
  C6 at index 0 of the chain of two blocks, where the nonce 0 meets the difficulty.
\<close>

theorem ChangeBlock_replaces_one_block_witness:
  "(0::int) \<le> 0 \<and> 0 < int (length (Blocks chain2)) \<and>
   HasPrefix (CreateHash [] 0 '''' (CreateMerkleRoot [''a'', ''b659'', ''x299014'']))
     (Repeat ''0'' leadingZeros) \<and>
   (\<exists>bc'. ChangeBlock chain2 0 ''x299014'' = Some (True, bc') \<and>
      length (Blocks bc') = 2 \<and> Blocks bc' ! 1 = block2 \<and>
      Transaction (Blocks bc' ! 0) = [''a'', ''b659'', ''x299014''])"
proof -
  have range: "(0::int) \<le> 0" "0 < int (length (Blocks chain2))"
    by (simp_all add: chain2_def)
  have "FindValidNonce_from (CreateMerkleRoot [''a'', ''b659'', ''x299014'']) '''' 0 = Some 0"
    using nonce_block1_changed by (simp add: root_block1_changed FindValidNonce_def)
  then have solved: "HasPrefix (CreateHash [] 0 '''' (CreateMerkleRoot [''a'', ''b659'', ''x299014'']))
      (Repeat ''0'' leadingZeros)"
    by (rule FindValidNonce_from_sound)
  have txs: "Transaction (Blocks chain2 ! nat 0) @ [''x299014''] = [''a'', ''b659'', ''x299014'']"
    by (simp add: chain2_def block1_def)
  have "\<exists>k. HasPrefix (CreateHash [] k (if (0::int) = 0 then '''' else
      CurrentHash (Blocks chain2 ! (nat 0 - 1)))
      (CreateMerkleRoot (Transaction (Blocks chain2 ! nat 0) @ [''x299014'']))) (Repeat ''0'' leadingZeros)"
    using solved by (auto simp only: txs simp_thms if_True)
  from ChangeBlock_replaces_one_block [OF range this]
  obtain bc' where "ChangeBlock chain2 0 ''x299014'' = Some (True, bc')"
    and "length (Blocks bc') = length (Blocks chain2)"
    and "Transaction (Blocks bc' ! nat 0) = Transaction (Blocks chain2 ! nat 0) @ [''x299014'']"
    and "\<forall>j. j < length (Blocks chain2) \<and> j \<noteq> nat 0 \<longrightarrow> Blocks bc' ! j = Blocks chain2 ! j"
    by auto
  then have "ChangeBlock chain2 0 ''x299014'' = Some (True, bc') \<and>
      length (Blocks bc') = 2 \<and> Blocks bc' ! 1 = block2 \<and>
      Transaction (Blocks bc' ! 0) = [''a'', ''b659'', ''x299014'']"
    by (simp add: chain2_def block1_def)
  with range solved show ?thesis
    by blast
qed

text \<open>
  C7: NewBlock with an empty batch, or with fewer transactions than
  NumTransactionsPerBlock, returns and leaves the whole blockchain as it was.
\<close>

theorem NewBlock_rejects_small_batch:
  assumes "length transactions = 0 \<or> int (length transactions) < NumTransactionsPerBlock bc"
  shows "NewBlock bc transactions = Some bc"
  using assms by (auto simp: NewBlock_def)

text \<open>
  C7 at a batch of one transaction and at the empty batch, with threshold 2.
\<close>

theorem NewBlock_rejects_small_batch_witness:
  "(length [''a''] = 0 \<or> int (length [''a'']) < NumTransactionsPerBlock chain1) \<and>
   NewBlock chain1 [''a''] = Some chain1 \<and> NewBlock chain1 [] = Some chain1"
proof -
  have small: "length [''a''] = 0 \<or> int (length [''a'']) < NumTransactionsPerBlock chain1"
    by (simp add: chain1_def chain0_def)
  have none: "length ([] :: string list) = 0 \<or>
      int (length ([] :: string list)) < NumTransactionsPerBlock chain1"
    by simp
  from NewBlock_rejects_small_batch [OF small] NewBlock_rejects_small_batch [OF none] small
  show ?thesis
    by blast
qed

text \<open>
  C8: ChangeBlock with a negative index, or an index at or beyond the number of blocks,
  returns false and leaves the whole blockchain as it was.
\<close>

theorem ChangeBlock_out_of_range:
  assumes "index < 0 \<or> index \<ge> int (length (Blocks bc))"
  shows "ChangeBlock bc index t = Some (False, bc)"
  using assms by (auto simp: ChangeBlock_def)

text \<open>
  C8 at the indices 2 and -1 of a chain of two blocks.
\<close>

theorem ChangeBlock_out_of_range_witness:
  "((2::int) < 0 \<or> 2 \<ge> int (length (Blocks chain2))) \<and>
   ChangeBlock chain2 2 ''x'' = Some (False, chain2) \<and>
   ChangeBlock chain2 (- 1) ''x'' = Some (False, chain2)"
proof -
  have above: "(2::int) < 0 \<or> 2 \<ge> int (length (Blocks chain2))"
    by (simp add: chain2_def)
  have below: "(- 1::int) < 0 \<or> - 1 \<ge> int (length (Blocks chain2))"
    by simp
  from ChangeBlock_out_of_range [OF above] ChangeBlock_out_of_range [OF below] above
  show ?thesis
    by blast
qed

text \<open>
  C9: CreateMerkleRoot of the empty list is the empty string, and of a one-element list
  it is that element, not hashed.
\<close>

theorem CreateMerkleRoot_empty_single:
  "CreateMerkleRoot [] = '''' \<and> CreateMerkleRoot [x] = x"
  by (simp add: CreateMerkleRoot.simps)

text \<open>
  C10: CreateMerkleRoot terminates on every list. One pass of the loop returns a list of
  length (n + 1) div 2, the ceiling of n / 2, which is below n from n = 2 on, so every list
  is in the domain on which the recursion is well-founded.
\<close>

theorem CreateMerkleRoot_terminates:
  "length (merkle_pairs transactions) = (length transactions + 1) div 2 \<and>
   (2 \<le> length transactions \<longrightarrow> length (merkle_pairs transactions) < length transactions) \<and>
   CreateMerkleRoot_dom transactions"
proof (intro conjI impI)
  show "length (merkle_pairs transactions) = (length transactions + 1) div 2"
    by (rule length_merkle_pairs)
  show "length (merkle_pairs transactions) < length transactions" if "2 \<le> length transactions"
    using that by (simp add: length_merkle_pairs)
  show "CreateMerkleRoot_dom transactions"
  proof (induction "length transactions" arbitrary: transactions rule: less_induct)
    case less
    show ?case
    proof (rule CreateMerkleRoot.domintros)
      assume "transactions \<noteq> []" and "length transactions \<noteq> Suc 0"
      then have "length (merkle_pairs transactions) < length transactions"
        by (cases transactions) (simp_all add: length_merkle_pairs)
      then show "CreateMerkleRoot_dom (merkle_pairs transactions)"
        by (rule less)
    qed
  qed
qed

text \<open>
  C10 at a list of three transactions.
\<close>

theorem CreateMerkleRoot_terminates_witness:
  "2 \<le> length [''a'', ''b'', ''c''] \<and>
   length (merkle_pairs [''a'', ''b'', ''c'']) = 2 \<and>
   length (merkle_pairs [''a'', ''b'', ''c'']) < length [''a'', ''b'', ''c''] \<and>
   CreateMerkleRoot_dom [''a'', ''b'', ''c'']"
proof -
  have two: "2 \<le> length [''a'', ''b'', ''c'']"
    by simp
  from CreateMerkleRoot_terminates [of "[''a'', ''b'', ''c'']"] two
  show ?thesis
    by simp
qed

end
